theory Spec2Isabelle
  imports Main "HOL-Library.AList" "HOL-Library.Sublist"
begin

section \<open>Values of the Go program\<close>

text \<open>
  The command of \<^verbatim>\<open>internal/dbctl/cmd/cluster/create.go\<close> works on untyped JSON
  documents: Go values of type \<^verbatim>\<open>interface{}\<close> as \<^verbatim>\<open>encoding/json\<close> and the
  unstructured helpers of the Kubernetes client produce them. A number is kept as an
  integer; no function of this file looks inside one.
\<close>

datatype jvalue =
    JNull
  | JBool bool
  | JNumber int
  | JString string
  | JArray "jvalue list"
  | JObject "(string \<times> jvalue) list"

text \<open>
  A non-nil \<^verbatim>\<open>map[string]interface{}\<close> is an association list: \<open>map_of\<close> reads a
  key, \<open>AList.update\<close> stores one (replacing the entry of the key when there is one).
  A Go map may be nil, and so may a slice: both are \<open>None\<close> below. The documents are
  trees, as \<^verbatim>\<open>json.Unmarshal\<close> builds them: no two places share a map.
\<close>

type_synonym gomap = "(string \<times> jvalue) list"

text \<open>A Go \<^verbatim>\<open>error\<close> value with its message.\<close>

datatype error = Error string

text \<open>
  A run of a function either returns or panics. The two panics this file can raise are
  a store into a nil map and a failed type assertion; the third belongs to the library
  function \<^verbatim>\<open>SetNestedField\<close> called with no field name.
\<close>

datatype panic = NilMapAssignment | TypeAssertion | SliceBounds

datatype 'a exec = Panic panic | Done 'a

definition exec_bind :: "'a exec \<Rightarrow> ('a \<Rightarrow> 'b exec) \<Rightarrow> 'b exec" where
  "exec_bind r f = (case r of Panic p \<Rightarrow> Panic p | Done x \<Rightarrow> f x)"

section \<open>setMonitor\<close>

definition monitorKey :: string where
  "monitorKey = ''monitor''"

text \<open>\<^verbatim>\<open>m[k] = v\<close>: a store into a nil map panics.\<close>

definition map_assign :: "gomap option \<Rightarrow> string \<Rightarrow> jvalue \<Rightarrow> gomap option exec" where
  "map_assign m k v =
     (case m of None \<Rightarrow> Panic NilMapAssignment
      | Some al \<Rightarrow> Done (Some (AList.update k v al)))"

text \<open>The loop \<^verbatim>\<open>for _, component := range components\<close> of \<^verbatim>\<open>setMonitor\<close>.\<close>

fun setMonitor_loop :: "bool \<Rightarrow> gomap option list \<Rightarrow> gomap option list exec" where
  "setMonitor_loop monitor [] = Done []"
| "setMonitor_loop monitor (component # rest) =
     exec_bind (map_assign component monitorKey (JBool monitor)) (\<lambda>component'.
     exec_bind (setMonitor_loop monitor rest) (\<lambda>rest'.
     Done (component' # rest')))"

text \<open>
  \<^verbatim>\<open>setMonitor\<close> changes the maps in place and returns nothing; the model returns the
  component list as the call leaves it.
\<close>

definition setMonitor :: "bool \<Rightarrow> gomap option list option \<Rightarrow> gomap option list option exec" where
  "setMonitor monitor components =
     (case components of
        None \<Rightarrow> Done None
      | Some cs \<Rightarrow> exec_bind (setMonitor_loop monitor cs) (\<lambda>cs'. Done (Some cs')))"

text \<open>The value a component holds under the monitor key (\<open>None\<close> for a nil map).\<close>

definition monitor_of :: "gomap option \<Rightarrow> jvalue option" where
  "monitor_of component = (case component of None \<Rightarrow> None | Some m \<Rightarrow> map_of m monitorKey)"

section \<open>The unstructured helpers of the Kubernetes client library\<close>

text \<open>
  \<^verbatim>\<open>NestedString\<close>, \<^verbatim>\<open>SetNestedField\<close> and \<^verbatim>\<open>DeepCopyJSONValue\<close> belong to
  \<^verbatim>\<open>k8s.io/apimachinery\<close>, a library the command imports. They are written here as the
  library defines them. The text of their error messages is not kept: every caller in
  \<^verbatim>\<open>create.go\<close> throws their error away.
\<close>

definition accessor_error :: error where
  "accessor_error = Error ''accessor error''"

definition set_error :: error where
  "set_error = Error ''value cannot be set''"

text \<open>
  \<^verbatim>\<open>NestedFieldNoCopy(obj, fields...)\<close> walks down the maps: the value, whether it was
  found, and an error when a level that is not a map stands in the way.
\<close>

fun NestedFieldNoCopy :: "jvalue \<Rightarrow> string list \<Rightarrow> jvalue \<times> bool \<times> error option" where
  "NestedFieldNoCopy val [] = (val, True, None)"
| "NestedFieldNoCopy val (field # fields) =
     (case val of
        JNull \<Rightarrow> (JNull, False, None)
      | JObject m \<Rightarrow>
          (case map_of m field of
             None \<Rightarrow> (JNull, False, None)
           | Some v \<Rightarrow> NestedFieldNoCopy v fields)
      | _ \<Rightarrow> (JNull, False, Some accessor_error))"

definition NestedString :: "gomap \<Rightarrow> string list \<Rightarrow> string \<times> bool \<times> error option" where
  "NestedString obj fields =
     (case NestedFieldNoCopy (JObject obj) fields of
        (val, found, err) \<Rightarrow>
          if \<not> found \<or> err \<noteq> None then ('''', found, err)
          else (case val of
                  JString s \<Rightarrow> (s, True, None)
                | _ \<Rightarrow> ('''', False, Some accessor_error)))"

text \<open>A deep copy of a tree is the tree.\<close>

definition DeepCopyJSONValue :: "jvalue \<Rightarrow> jvalue" where
  "DeepCopyJSONValue x = x"

text \<open>
  \<^verbatim>\<open>setNestedFieldNoCopy(obj, value, fields...)\<close> walks down all fields but the last,
  making an empty map where a field is missing, and stores the value under the last
  field. A level that holds something else than a map stops it with an error, the
  object as it was. With no field at all the slice expression
  \<^verbatim>\<open>fields[:len(fields)-1]\<close> panics. The result is the object after the call and the
  error.
\<close>

fun setNestedFieldNoCopy :: "gomap \<Rightarrow> jvalue \<Rightarrow> string list \<Rightarrow> (gomap \<times> error option) exec" where
  "setNestedFieldNoCopy m val [] = Panic SliceBounds"
| "setNestedFieldNoCopy m val [field] = Done (AList.update field val m, None)"
| "setNestedFieldNoCopy m val (field # fields) =
     (case map_of m field of
        Some (JObject valMap) \<Rightarrow>
          exec_bind (setNestedFieldNoCopy valMap val fields) (\<lambda>(valMap', err).
          Done (AList.update field (JObject valMap') m, err))
      | Some _ \<Rightarrow> Done (m, Some set_error)
      | None \<Rightarrow>
          exec_bind (setNestedFieldNoCopy [] val fields) (\<lambda>(newVal, err).
          Done (AList.update field (JObject newVal) m, err)))"

definition SetNestedField :: "gomap \<Rightarrow> jvalue \<Rightarrow> string list \<Rightarrow> (gomap \<times> error option) exec" where
  "SetNestedField obj val fields = setNestedFieldNoCopy obj (DeepCopyJSONValue val) fields"

text \<open>\<^verbatim>\<open>_ = f(...)\<close>: the error is dropped, the object stays as the call left it.\<close>

definition discard_error :: "(gomap \<times> error option) exec \<Rightarrow> gomap exec" where
  "discard_error r = exec_bind r (\<lambda>(obj, err). Done obj)"

section \<open>The request and the remote reads\<close>

text \<open>
  The two kinds of resource the command reads from the cluster. The constants of package
  \<^verbatim>\<open>types\<close> that name their group, version and resource are not part of the source
  file; a tag tells the two apart.
\<close>

datatype resource = ResourceBackupJobs | ResourceClusterDefs

text \<open>A read the command sends: resource, namespace, name.\<close>

datatype request = Get resource string string

text \<open>
  The dynamic client: a read answers with the content of the object or with an error.
\<close>

type_synonym client = "resource \<Rightarrow> string \<Rightarrow> string \<Rightarrow> error + gomap"

text \<open>
  \<^verbatim>\<open>CreateOptions\<close>, with the fields \<^verbatim>\<open>Name\<close>, \<^verbatim>\<open>Namespace\<close> and \<^verbatim>\<open>Client\<close> it
  embeds from \<^verbatim>\<open>create.BaseOptions\<close>.
\<close>

record CreateOptions =
  ClusterDefRef :: string
  AppVersionRef :: string
  TerminationPolicy :: string
  PodAntiAffinity :: string
  Monitor :: bool
  EnableAllLogs :: bool
  TopologyKeys :: "string list option"
  NodeLabels :: "(string \<times> string) list option"
  Components :: "gomap option list option"
  ComponentsFilePath :: string
  Backup :: string
  Name :: string
  Namespace :: string
  Client :: client

section \<open>setBackup\<close>

definition backup_type_error :: "string \<Rightarrow> error" where
  "backup_type_error backupType =
     Error (''only support snapshot backup, specified backup type is '' @ [CHR 0x27]
            @ backupType @ [CHR 0x27])"

text \<open>The three stores that build \<^verbatim>\<open>dataSource\<close>, each error dropped.\<close>

definition make_dataSource :: "string \<Rightarrow> gomap exec" where
  "make_dataSource backup =
     exec_bind (discard_error (SetNestedField [] (JString backup) [''name''])) (\<lambda>d1.
     exec_bind (discard_error (SetNestedField d1 (JString ''VolumeSnapshot'') [''kind''])) (\<lambda>d2.
     discard_error (SetNestedField d2 (JString ''snapshot.storage.k8s.io'') [''apiGroup''])))"

text \<open>
  The inner loop \<^verbatim>\<open>for _, t := range templates\<close>: the assertion
  \<^verbatim>\<open>t.(map[string]interface{})\<close> panics on anything but a map.
\<close>

fun setBackup_templates :: "gomap \<Rightarrow> jvalue list \<Rightarrow> jvalue list exec" where
  "setBackup_templates dataSource [] = Done []"
| "setBackup_templates dataSource (t # ts) =
     (case t of
        JObject templateMap \<Rightarrow>
          exec_bind (discard_error
            (SetNestedField templateMap (JObject dataSource) [''spec'', ''dataSource'']))
            (\<lambda>templateMap'.
          exec_bind (setBackup_templates dataSource ts) (\<lambda>ts'.
          Done (JObject templateMap' # ts')))
      | _ \<Rightarrow> Panic TypeAssertion)"

text \<open>
  The outer loop \<^verbatim>\<open>for _, component := range components\<close>. Reading a key of a nil map
  or a key the map does not have gives the nil interface, and the assertion
  \<^verbatim>\<open>.([]interface{})\<close> panics on it as on every value that is not a list. The templates
  are changed in place, so the component holds the changed list afterwards.
\<close>

fun setBackup_components :: "gomap \<Rightarrow> gomap option list \<Rightarrow> gomap option list exec" where
  "setBackup_components dataSource [] = Done []"
| "setBackup_components dataSource (component # rest) =
     (case component of
        None \<Rightarrow> Panic TypeAssertion
      | Some m \<Rightarrow>
          (case map_of m ''volumeClaimTemplates'' of
             Some (JArray templates) \<Rightarrow>
               exec_bind (setBackup_templates dataSource templates) (\<lambda>templates'.
               exec_bind (setBackup_components dataSource rest) (\<lambda>rest'.
               Done (Some (AList.update ''volumeClaimTemplates'' (JArray templates') m) # rest')))
           | _ \<Rightarrow> Panic TypeAssertion))"

text \<open>
  \<^verbatim>\<open>setBackup\<close>: the reads it sent to the cluster, and either a panic or the returned
  error (\<open>None\<close> for \<^verbatim>\<open>nil\<close>) with the component list as the call leaves it.
\<close>

definition setBackup ::
  "CreateOptions \<Rightarrow> gomap option list option \<Rightarrow>
     request list \<times> (error option \<times> gomap option list option) exec" where
  "setBackup opts components =
     (let backup = Backup opts in
      if length backup = 0 then ([], Done (None, components))
      else case components of
        None \<Rightarrow> ([], Done (None, components))
      | Some cs \<Rightarrow>
          (case Client opts ResourceBackupJobs (Namespace opts) backup of
             Inl err \<Rightarrow>
               ([Get ResourceBackupJobs (Namespace opts) backup], Done (Some err, components))
           | Inr backupJobObj \<Rightarrow>
               ([Get ResourceBackupJobs (Namespace opts) backup],
                (case NestedString backupJobObj [''spec'', ''backupType''] of
                   (backupType, _, _) \<Rightarrow>
                     if backupType \<noteq> ''snapshot''
                     then Done (Some (backup_type_error backupType), components)
                     else
                       exec_bind (make_dataSource backup) (\<lambda>dataSource.
                       exec_bind (setBackup_components dataSource cs) (\<lambda>cs'.
                       Done (None, Some cs')))))))"

text \<open>The descriptor the spec names, and the shapes of a component the claims speak of.\<close>

definition snapshot_descriptor :: "string \<Rightarrow> jvalue" where
  "snapshot_descriptor backup =
     JObject [(''name'', JString backup), (''kind'', JString ''VolumeSnapshot''),
              (''apiGroup'', JString ''snapshot.storage.k8s.io'')]"

definition is_map :: "jvalue \<Rightarrow> bool" where
  "is_map v = (case v of JObject _ \<Rightarrow> True | _ \<Rightarrow> False)"

text \<open>The templates of a component, when it carries the field as a list.\<close>

definition templates_of :: "gomap option \<Rightarrow> jvalue list option" where
  "templates_of component =
     (case component of
        None \<Rightarrow> None
      | Some m \<Rightarrow>
          (case map_of m ''volumeClaimTemplates'' of
             Some (JArray ts) \<Rightarrow> Some ts
           | _ \<Rightarrow> None))"

text \<open>The component carries a \<^verbatim>\<open>volumeClaimTemplates\<close> field that is a list of maps.\<close>

definition has_templates :: "gomap option \<Rightarrow> bool" where
  "has_templates component =
     (case templates_of component of None \<Rightarrow> False | Some ts \<Rightarrow> list_all is_map ts)"

text \<open>The \<^verbatim>\<open>spec\<close> field of a template is a map or is not there.\<close>

definition spec_settable :: "jvalue \<Rightarrow> bool" where
  "spec_settable t =
     (case t of
        JObject tm \<Rightarrow>
          (case map_of tm ''spec'' of None \<Rightarrow> True | Some v \<Rightarrow> is_map v)
      | _ \<Rightarrow> False)"

definition has_settable_templates :: "gomap option \<Rightarrow> bool" where
  "has_settable_templates component =
     (case templates_of component of None \<Rightarrow> False | Some ts \<Rightarrow> list_all spec_settable ts)"

text \<open>What a template holds at \<^verbatim>\<open>spec.dataSource\<close>.\<close>

definition dataSource_of :: "jvalue \<Rightarrow> jvalue option" where
  "dataSource_of t =
     (case NestedFieldNoCopy t [''spec'', ''dataSource''] of
        (v, found, err) \<Rightarrow> if found then Some v else None)"

text \<open>The backup type a backup job declares, when it declares one as a string.\<close>

definition declared_backupType :: "gomap \<Rightarrow> string option" where
  "declared_backupType job =
     (case map_of job ''spec'' of
        Some (JObject spec) \<Rightarrow>
          (case map_of spec ''backupType'' of Some (JString s) \<Rightarrow> Some s | _ \<Rightarrow> None)
      | _ \<Rightarrow> None)"

section \<open>Validate\<close>

definition missing_name_error :: error where
  "missing_name_error = Error ''missing cluster name''"

definition termination_policy_error :: error where
  "termination_policy_error =
     Error (''a valid termination policy is needed, use --termination-policy to specify ''
            @ ''one of: DoNotTerminate, Halt, Delete, WipeOut'')"

definition components_path_error :: error where
  "components_path_error =
     Error ''a valid component local file path, URL, or stdin is needed''"

definition Validate :: "CreateOptions \<Rightarrow> error option" where
  "Validate opts =
     (if Name opts = '''' then Some missing_name_error
      else if TerminationPolicy opts = '''' then Some termination_policy_error
      else if length (ComponentsFilePath opts) = 0 then Some components_path_error
      else None)"

text \<open>The four values the flag's help text and its completion function list.\<close>

definition termination_policies :: "string list" where
  "termination_policies = [''DoNotTerminate'', ''Halt'', ''Delete'', ''WipeOut'']"

section \<open>multipleSourceComponents\<close>

text \<open>
  An \<^verbatim>\<open>io.Reader\<close> is the bytes it delivers and how it ends: at end of stream
  (\<open>None\<close>) or with an error. \<^verbatim>\<open>io.ReadAll\<close> reads until either and returns the bytes
  it has read together with the error; end of stream is no error.
\<close>

record reader =
  delivered :: string
  failure :: "error option"

definition ReadAll :: "reader \<Rightarrow> string \<times> error option" where
  "ReadAll r = (delivered r, failure r)"

text \<open>\<^verbatim>\<open>genericclioptions.IOStreams\<close>: only \<^verbatim>\<open>In\<close> is read.\<close>

record IOStreams =
  In :: reader

text \<open>
  What the process can reach: \<^verbatim>\<open>http.Get\<close> answers a URL with a response body or an
  error, \<^verbatim>\<open>os.Open\<close> a path with a file or an error.
\<close>

record world =
  http_Get :: "string \<Rightarrow> error + reader"
  os_Open :: "string \<Rightarrow> error + reader"

text \<open>The calls the function makes, in order.\<close>

datatype io_call =
    HttpGet string
  | OsOpen string
  | ReadIn
  | ReadBody string
  | ReadFile string
  | CloseBody string
  | CloseFile string

text \<open>\<^verbatim>\<open>strings.Index\<close>: where the substring first starts, or -1.\<close>

fun Index :: "string \<Rightarrow> string \<Rightarrow> int" where
  "Index [] substr = (if substr = [] then 0 else - 1)"
| "Index (c # s) substr =
     (if prefix substr (c # s) then 0
      else (let i = Index s substr in if i < 0 then - 1 else i + 1))"

text \<open>
  The result is the byte slice (\<open>None\<close> for \<^verbatim>\<open>nil\<close>) and the error. The deferred
  \<^verbatim>\<open>Close\<close> runs after \<^verbatim>\<open>io.ReadAll\<close>.
\<close>

definition multipleSourceComponents ::
  "world \<Rightarrow> string \<Rightarrow> IOStreams \<Rightarrow> io_call list \<times> string option \<times> error option" where
  "multipleSourceComponents w fileName streams =
     (if fileName = ''-'' then
        (case ReadAll (In streams) of (bytes, err) \<Rightarrow> ([ReadIn], Some bytes, err))
      else if Index fileName ''http://'' = 0 \<or> Index fileName ''https://'' = 0 then
        (case http_Get w fileName of
           Inl err \<Rightarrow> ([HttpGet fileName], None, Some err)
         | Inr body \<Rightarrow>
             (case ReadAll body of
                (bytes, err) \<Rightarrow>
                  ([HttpGet fileName, ReadBody fileName, CloseBody fileName], Some bytes, err)))
      else
        (case os_Open w fileName of
           Inl err \<Rightarrow> ([OsOpen fileName], None, Some err)
         | Inr f \<Rightarrow>
             (case ReadAll f of
                (bytes, err) \<Rightarrow>
                  ([OsOpen fileName, ReadFile fileName, CloseFile fileName], Some bytes, err))))"

section \<open>PreCreate and setEnableAllLogs\<close>

text \<open>
  The typed API objects of \<^verbatim>\<open>dbaasv1alpha1\<close>, with the fields the command reads or
  writes. A field whose Go name is taken by \<^verbatim>\<open>CreateOptions\<close> carries the name of its
  struct in front.
\<close>

record LogConfig =
  LogConfig_Name :: string

record ClusterDefinitionComponent =
  TypeName :: string
  LogConfigs :: "LogConfig list"

record ClusterDefinitionSpec =
  ClusterDefinitionSpec_Components :: "ClusterDefinitionComponent list"

record ClusterDefinition =
  ClusterDefinition_Spec :: ClusterDefinitionSpec

record ClusterComponent =
  ClusterComponent_Name :: string
  Type :: string
  EnabledLogs :: "string list"

record ClusterSpec =
  ClusterSpec_ClusterDefRef :: string
  ClusterSpec_Components :: "ClusterComponent list"

record Cluster =
  Cluster_Spec :: ClusterSpec

text \<open>
  \<^verbatim>\<open>strings.EqualFold\<close> of the Go library. Its first loop compares the two strings
  byte by byte as long as both bytes are ASCII: equal, or the smaller an upper-case
  letter and the larger the same letter in lower case. At the first byte of either
  string that is not ASCII it jumps to the label \<^verbatim>\<open>hasUnicode\<close>, where the rest of
  both strings is decoded into runes and compared by the orbits of
  \<^verbatim>\<open>unicode.SimpleFold\<close>. The Unicode tables are not part of the source: that part is
  the parameter \<open>hasUnicode\<close>, which gets the two rests. When one string ends before
  the other the strings differ in length and are not equal.
\<close>

type_synonym unicode_compare = "string \<Rightarrow> string \<Rightarrow> bool"

fun EqualFold :: "unicode_compare \<Rightarrow> string \<Rightarrow> string \<Rightarrow> bool" where
  "EqualFold hasUnicode [] [] = True"
| "EqualFold hasUnicode (sr # s) (tr # t) =
     (if 128 \<le> (of_char sr :: nat) \<or> 128 \<le> (of_char tr :: nat)
      then hasUnicode (sr # s) (tr # t)
      else if tr = sr then EqualFold hasUnicode s t
      else
        (let lo = min (of_char sr) (of_char tr) :: nat;
             hi = max (of_char sr) (of_char tr) :: nat
         in if 65 \<le> lo \<and> lo \<le> 90 \<and> hi = lo + 32 then EqualFold hasUnicode s t
            else False))"
| "EqualFold hasUnicode _ _ = False"

text \<open>A string of ASCII bytes only: on two of them the first loop decides alone.\<close>

definition is_ascii :: "string \<Rightarrow> bool" where
  "is_ascii s = list_all (\<lambda>c. (of_char c :: nat) < 128) s"

text \<open>The loop that collects the names of the log configurations.\<close>

fun typeList_loop :: "string list \<Rightarrow> LogConfig list \<Rightarrow> string list" where
  "typeList_loop typeList [] = typeList"
| "typeList_loop typeList (logConf # rest) =
     typeList_loop (typeList @ [LogConfig_Name logConf]) rest"

text \<open>
  The inner loop over the components of the definition, for the component at one index
  of the cluster: there is no \<^verbatim>\<open>break\<close>, every entry that matches writes the field.
  \<^verbatim>\<open>comCluster\<close> is the copy the \<^verbatim>\<open>range\<close> clause made of the component.
\<close>

fun setEnableAllLogs_inner ::
  "unicode_compare \<Rightarrow> ClusterComponent \<Rightarrow> ClusterComponent \<Rightarrow>
     ClusterDefinitionComponent list \<Rightarrow> ClusterComponent" where
  "setEnableAllLogs_inner hasUnicode comCluster current [] = current"
| "setEnableAllLogs_inner hasUnicode comCluster current (com # rest) =
     (if \<not> EqualFold hasUnicode (Type comCluster) (TypeName com)
      then setEnableAllLogs_inner hasUnicode comCluster current rest
      else setEnableAllLogs_inner hasUnicode comCluster
             (current\<lparr>EnabledLogs := typeList_loop [] (LogConfigs com)\<rparr>) rest)"

definition setEnableAllLogs ::
  "unicode_compare \<Rightarrow> Cluster \<Rightarrow> ClusterDefinition \<Rightarrow> Cluster" where
  "setEnableAllLogs hasUnicode c cd =
     c\<lparr>Cluster_Spec := (Cluster_Spec c)\<lparr>ClusterSpec_Components :=
         map (\<lambda>comCluster. setEnableAllLogs_inner hasUnicode comCluster comCluster
                (ClusterDefinitionSpec_Components (ClusterDefinition_Spec cd)))
             (ClusterSpec_Components (Cluster_Spec c))\<rparr>\<rparr>"

text \<open>
  The conversions of \<^verbatim>\<open>runtime.DefaultUnstructuredConverter\<close> between a document and
  the typed objects are taken as they come: each answers with the converted value or
  with an error.
\<close>

record converter =
  FromUnstructured_Cluster :: "gomap \<Rightarrow> error + Cluster"
  FromUnstructured_ClusterDefinition :: "gomap \<Rightarrow> error + ClusterDefinition"
  ToUnstructured :: "Cluster \<Rightarrow> error + gomap"

text \<open>
  \<^verbatim>\<open>PreCreate\<close>: the reads it sent to the cluster, the returned error and the content
  of the document as the call leaves it. It hands the Unicode part of the string
  comparison on to \<^verbatim>\<open>setEnableAllLogs\<close>.
\<close>

definition PreCreate ::
  "unicode_compare \<Rightarrow> converter \<Rightarrow> CreateOptions \<Rightarrow> gomap \<Rightarrow>
     request list \<times> error option \<times> gomap" where
  "PreCreate hasUnicode conv opts obj =
     (if \<not> EnableAllLogs opts then ([], None, obj)
      else case FromUnstructured_Cluster conv obj of
        Inl err \<Rightarrow> ([], Some err, obj)
      | Inr c \<Rightarrow>
          (let ref = ClusterSpec_ClusterDefRef (Cluster_Spec c) in
           case Client opts ResourceClusterDefs '''' ref of
             Inl err \<Rightarrow> ([Get ResourceClusterDefs '''' ref], Some err, obj)
           | Inr res \<Rightarrow>
               (case FromUnstructured_ClusterDefinition conv res of
                  Inl err \<Rightarrow> ([Get ResourceClusterDefs '''' ref], Some err, obj)
                | Inr cd \<Rightarrow>
                    (case ToUnstructured conv (setEnableAllLogs hasUnicode c cd) of
                       Inl e \<Rightarrow> ([Get ResourceClusterDefs '''' ref], Some e, obj)
                     | Inr data \<Rightarrow> ([Get ResourceClusterDefs '''' ref], None, data)))))"

text \<open>The definition entries whose type name matches the type of a component.\<close>

definition matching_entries ::
  "unicode_compare \<Rightarrow> ClusterComponent \<Rightarrow> ClusterDefinition \<Rightarrow>
     ClusterDefinitionComponent list" where
  "matching_entries hasUnicode component cd =
     filter (\<lambda>com. EqualFold hasUnicode (Type component) (TypeName com))
       (ClusterDefinitionSpec_Components (ClusterDefinition_Spec cd))"

section \<open>The requests of the scenarios\<close>

text \<open>
  A request as the command line of the spec's scenarios fills it, for a backup name
  and a cluster that answers the reads; and a backup job that declares a type.
\<close>

definition scenario_options :: "string \<Rightarrow> client \<Rightarrow> CreateOptions" where
  "scenario_options backup cl =
     \<lparr>ClusterDefRef = ''apecloud-wesql'', AppVersionRef = ''wesql-8.0.30'',
      TerminationPolicy = ''Halt'', PodAntiAffinity = ''Preferred'', Monitor = False,
      EnableAllLogs = False, TopologyKeys = None, NodeLabels = None, Components = None,
      ComponentsFilePath = ''-'', Backup = backup, Name = ''mycluster'',
      Namespace = ''default'', Client = cl\<rparr>"

definition backup_job_of_type :: "string \<Rightarrow> gomap" where
  "backup_job_of_type t = [(''spec'', JObject [(''backupType'', JString t)])]"

definition cluster_with :: "gomap \<Rightarrow> client" where
  "cluster_with job = (\<lambda>res ns name. Inr job)"

text \<open>
  A Unicode comparison that takes two rests for equal only when they are the same
  bytes. The scenarios name their types in ASCII, where it is never asked.
\<close>

definition same_bytes :: unicode_compare where
  "same_bytes s t = (s = t)"

text \<open>A converter that refuses every document, and a world with no network and no file.\<close>

definition refusing_converter :: converter where
  "refusing_converter =
     \<lparr>FromUnstructured_Cluster = (\<lambda>obj. Inl (Error ''cannot convert'')),
      FromUnstructured_ClusterDefinition = (\<lambda>obj. Inl (Error ''cannot convert'')),
      ToUnstructured = (\<lambda>c. Inl (Error ''cannot convert''))\<rparr>"

definition unreachable_world :: world where
  "unreachable_world =
     \<lparr>http_Get = (\<lambda>url. Inl (Error ''connection refused'')),
      os_Open = (\<lambda>path. Inl (Error ''no such file or directory''))\<rparr>"

section \<open>Properties of setMonitor\<close>

lemma exec_bind_Done [simp]: "exec_bind (Done x) f = f x"
  by (simp add: exec_bind_def)

lemma exec_bind_Panic [simp]: "exec_bind (Panic p) f = Panic p"
  by (simp add: exec_bind_def)

lemma setMonitor_loop_Done:
  "list_all (\<lambda>c. c \<noteq> None) cs \<Longrightarrow>
   setMonitor_loop b cs =
     Done (map (\<lambda>c. Some (AList.update monitorKey (JBool b) (the c))) cs)"
  by (induction cs) (auto simp: map_assign_def)

lemma setMonitor_loop_Panic:
  "\<not> list_all (\<lambda>c. c \<noteq> None) cs \<Longrightarrow> setMonitor_loop b cs = Panic NilMapAssignment"
proof (induction cs)
  case Nil
  then show ?case by simp
next
  case (Cons c cs)
  show ?case
  proof (cases c)
    case None
    then show ?thesis by (simp add: map_assign_def)
  next
    case (Some m)
    with Cons show ?thesis by (simp add: map_assign_def)
  qed
qed

lemma setMonitor_Done:
  "list_all (\<lambda>c. c \<noteq> None) cs \<Longrightarrow>
   setMonitor b (Some cs) =
     Done (Some (map (\<lambda>c. Some (AList.update monitorKey (JBool b) (the c))) cs))"
  by (simp add: setMonitor_def setMonitor_loop_Done)

lemma setMonitor_Panic:
  "\<not> list_all (\<lambda>c. c \<noteq> None) cs \<Longrightarrow> setMonitor b (Some cs) = Panic NilMapAssignment"
  by (simp add: setMonitor_def setMonitor_loop_Panic)

lemma monitor_of_written:
  "monitor_of (Some (AList.update monitorKey (JBool b) m)) = Some (JBool b)"
  by (simp add: monitor_of_def update_conv')

text \<open>
  C6 (as amended). \<^verbatim>\<open>setMonitor\<close> does nothing to a nil list. On a list whose
  components are all non-nil maps it returns, and every component is then the map it
  was with the monitor key set to the given boolean, whatever the key held before; the
  other keys keep their values. A nil map in the list makes the store panic.
\<close>

theorem setMonitor_writes_every_component:
  "setMonitor b None = Done None \<and>
   (list_all (\<lambda>c. c \<noteq> None) cs \<longrightarrow>
      (\<exists>cs'. setMonitor b (Some cs) = Done (Some cs') \<and> length cs' = length cs \<and>
         (\<forall>i < length cs. \<exists>m m'. cs ! i = Some m \<and> cs' ! i = Some m' \<and>
            map_of m' = (map_of m)(monitorKey \<mapsto> JBool b) \<and>
            monitor_of (cs' ! i) = Some (JBool b)))) \<and>
   (\<not> list_all (\<lambda>c. c \<noteq> None) cs \<longrightarrow> setMonitor b (Some cs) = Panic NilMapAssignment)"
proof (intro conjI impI)
  show "setMonitor b None = Done None"
    by (simp add: setMonitor_def)
next
  assume nonnil: "list_all (\<lambda>c. c \<noteq> None) cs"
  let ?cs' = "map (\<lambda>c. Some (AList.update monitorKey (JBool b) (the c))) cs"
  have run: "setMonitor b (Some cs) = Done (Some ?cs')"
    using nonnil by (rule setMonitor_Done)
  have each: "\<exists>m m'. cs ! i = Some m \<and> ?cs' ! i = Some m' \<and>
      map_of m' = (map_of m)(monitorKey \<mapsto> JBool b) \<and>
      monitor_of (?cs' ! i) = Some (JBool b)" if "i < length cs" for i
  proof -
    from nonnil that have "cs ! i \<noteq> None"
      by (simp add: list_all_length)
    then obtain m where m: "cs ! i = Some m"
      by auto
    with that show ?thesis
      by (simp add: update_conv' monitor_of_written)
  qed
  show "\<exists>cs'. setMonitor b (Some cs) = Done (Some cs') \<and> length cs' = length cs \<and>
         (\<forall>i < length cs. \<exists>m m'. cs ! i = Some m \<and> cs' ! i = Some m' \<and>
            map_of m' = (map_of m)(monitorKey \<mapsto> JBool b) \<and>
            monitor_of (cs' ! i) = Some (JBool b))"
    using run each by (intro exI [of _ ?cs']) simp
next
  assume "\<not> list_all (\<lambda>c. c \<noteq> None) cs"
  then show "setMonitor b (Some cs) = Panic NilMapAssignment"
    by (rule setMonitor_Panic)
qed

theorem setMonitor_writes_every_component_witness:
  "list_all (\<lambda>c. c \<noteq> None)
     [Some [(''name'', JString ''wesql''), (''monitor'', JBool False)], Some []] \<and>
   (\<exists>cs'. setMonitor True
       (Some [Some [(''name'', JString ''wesql''), (''monitor'', JBool False)], Some []]) =
       Done (Some cs') \<and>
     length cs' = 2 \<and> (\<forall>i < 2. monitor_of (cs' ! i) = Some (JBool True))) \<and>
   \<not> list_all (\<lambda>c. c \<noteq> None) [Some [], None :: gomap option] \<and>
   setMonitor False (Some [Some [], None]) = Panic NilMapAssignment"
proof -
  let ?cs = "[Some [(''name'', JString ''wesql''), (''monitor'', JBool False)], Some []]"
  have nonnil: "list_all (\<lambda>c. c \<noteq> None) ?cs"
    by simp
  have nil: "\<not> list_all (\<lambda>c. c \<noteq> None) [Some [], None :: gomap option]"
    by simp
  from setMonitor_writes_every_component [of True ?cs] nonnil
  obtain cs' where run: "setMonitor True (Some ?cs) = Done (Some cs')"
    and len: "length cs' = length ?cs"
    and each: "\<forall>i < length ?cs. \<exists>m m'. ?cs ! i = Some m \<and> cs' ! i = Some m' \<and>
            map_of m' = (map_of m)(monitorKey \<mapsto> JBool True) \<and>
            monitor_of (cs' ! i) = Some (JBool True)"
    by blast
  from each have "\<forall>i < 2. monitor_of (cs' ! i) = Some (JBool True)"
    by (auto simp: numeral_2_eq_2)
  with run len have written: "\<exists>cs'. setMonitor True (Some ?cs) = Done (Some cs') \<and>
     length cs' = 2 \<and> (\<forall>i < 2. monitor_of (cs' ! i) = Some (JBool True))"
    by auto
  from setMonitor_writes_every_component [of False "[Some [], None]"] nil
  have "setMonitor False (Some [Some [], None]) = Panic NilMapAssignment"
    by blast
  with nonnil nil written show ?thesis
    by blast
qed

text \<open>
  C6 as the claim words it, for every component list, fails on a list that holds a nil
  map: the store into it panics, and no monitor field is written.
\<close>

theorem setMonitor_nil_component_counterexample:
  "setMonitor True (Some [None]) = Panic NilMapAssignment"
  by (simp add: setMonitor_def map_assign_def)

lemma monitor_map_twice:
  "map (\<lambda>c. Some (AList.update monitorKey (JBool b') (the c)))
     (map (\<lambda>c. Some (AList.update monitorKey (JBool b) (the c))) cs) =
   map (\<lambda>c. Some (AList.update monitorKey (JBool b') (the c))) cs"
  by simp

lemma monitor_map_nonnil:
  "list_all (\<lambda>c. c \<noteq> None) (map (\<lambda>c. Some (AList.update monitorKey (JBool b) (the c))) cs)"
  by (simp add: list_all_iff)

lemma setMonitor_then:
  "exec_bind (setMonitor b cs) (setMonitor b') = setMonitor b' cs"
proof (cases cs)
  case None
  then show ?thesis by (simp add: setMonitor_def)
next
  case (Some xs)
  show ?thesis
  proof (cases "list_all (\<lambda>c. c \<noteq> None) xs")
    case True
    then show ?thesis
      unfolding Some
      by (simp only: setMonitor_Done exec_bind_Done monitor_map_nonnil monitor_map_twice)
  next
    case False
    then show ?thesis
      unfolding Some by (simp add: setMonitor_Panic)
  qed
qed

text \<open>
  C7 (as amended). Running \<^verbatim>\<open>setMonitor\<close> twice with the same boolean is the same as
  running it once, on every component list, a panic of the first run included. On a
  list whose components are all non-nil maps, the run with \<open>true\<close> returns, the run
  with \<open>false\<close> after it returns, and every component then holds \<open>false\<close> under the
  monitor key.
\<close>

theorem setMonitor_idempotent:
  "exec_bind (setMonitor b cs) (setMonitor b) = setMonitor b cs \<and>
   (list_all (\<lambda>c. c \<noteq> None) xs \<longrightarrow>
      (\<exists>ys zs. setMonitor True (Some xs) = Done (Some ys) \<and>
         setMonitor False (Some ys) = Done (Some zs) \<and> length zs = length xs \<and>
         list_all (\<lambda>c. monitor_of c = Some (JBool False)) zs))"
proof (intro conjI impI)
  show "exec_bind (setMonitor b cs) (setMonitor b) = setMonitor b cs"
    by (rule setMonitor_then)
next
  assume nonnil: "list_all (\<lambda>c. c \<noteq> None) xs"
  let ?ys = "map (\<lambda>c. Some (AList.update monitorKey (JBool True) (the c))) xs"
  let ?zs = "map (\<lambda>c. Some (AList.update monitorKey (JBool False) (the c))) ?ys"
  have first: "setMonitor True (Some xs) = Done (Some ?ys)"
    using nonnil by (rule setMonitor_Done)
  have second: "setMonitor False (Some ?ys) = Done (Some ?zs)"
    using monitor_map_nonnil by (rule setMonitor_Done)
  have cleared: "list_all (\<lambda>c. monitor_of c = Some (JBool False)) ?zs"
    by (simp add: list_all_iff monitor_of_written)
  have "length ?zs = length xs"
    by simp
  with first second cleared
  show "\<exists>ys zs. setMonitor True (Some xs) = Done (Some ys) \<and>
         setMonitor False (Some ys) = Done (Some zs) \<and> length zs = length xs \<and>
         list_all (\<lambda>c. monitor_of c = Some (JBool False)) zs"
    by blast
qed

theorem setMonitor_idempotent_witness:
  "list_all (\<lambda>c. c \<noteq> None) [Some [(''type'', JString ''t1'')], Some [(''monitor'', JNull)]] \<and>
   exec_bind (setMonitor True (Some [Some [(''type'', JString ''t1'')]])) (setMonitor True) =
     Done (Some [Some [(''type'', JString ''t1''), (''monitor'', JBool True)]]) \<and>
   (\<exists>ys zs. setMonitor True (Some [Some [(''type'', JString ''t1'')], Some [(''monitor'', JNull)]]) =
        Done (Some ys) \<and>
      setMonitor False (Some ys) = Done (Some zs) \<and> length zs = 2 \<and>
      list_all (\<lambda>c. monitor_of c = Some (JBool False)) zs)"
proof -
  let ?xs = "[Some [(''type'', JString ''t1'')], Some [(''monitor'', JNull)]]"
  have nonnil: "list_all (\<lambda>c. c \<noteq> None) ?xs"
    by simp
  have once: "setMonitor True (Some [Some [(''type'', JString ''t1'')]]) =
      Done (Some [Some [(''type'', JString ''t1''), (''monitor'', JBool True)]])"
    by (simp add: setMonitor_def map_assign_def monitorKey_def)
  note idem = setMonitor_idempotent [of True "Some [Some [(''type'', JString ''t1'')]]" ?xs]
  from idem once
  have twice: "exec_bind (setMonitor True (Some [Some [(''type'', JString ''t1'')]]))
      (setMonitor True) =
      Done (Some [Some [(''type'', JString ''t1''), (''monitor'', JBool True)]])"
    by simp
  from idem nonnil
  have "\<exists>ys zs. setMonitor True (Some ?xs) = Done (Some ys) \<and>
      setMonitor False (Some ys) = Done (Some zs) \<and> length zs = length ?xs \<and>
      list_all (\<lambda>c. monitor_of c = Some (JBool False)) zs"
    by blast
  then have "\<exists>ys zs. setMonitor True (Some ?xs) = Done (Some ys) \<and>
      setMonitor False (Some ys) = Done (Some zs) \<and> length zs = 2 \<and>
      list_all (\<lambda>c. monitor_of c = Some (JBool False)) zs"
    by (simp add: numeral_2_eq_2)
  with nonnil twice show ?thesis
    by blast
qed

text \<open>
  C7 as the claim words it, for every component list, fails on a list that holds a nil
  map: the run with \<open>true\<close> panics at it, so no run with \<open>false\<close> comes after and no
  list with the field cleared is left.
\<close>

theorem setMonitor_idempotent_counterexample:
  "exec_bind (setMonitor True (Some [Some [(''monitor'', JBool True)], None]))
     (setMonitor False) = Panic NilMapAssignment"
  by (simp add: setMonitor_def map_assign_def)

section \<open>Properties of setBackup\<close>

lemma make_dataSource_eq:
  "make_dataSource backup =
     Done [(''name'', JString backup), (''kind'', JString ''VolumeSnapshot''),
           (''apiGroup'', JString ''snapshot.storage.k8s.io'')]"
  by (simp add: make_dataSource_def discard_error_def SetNestedField_def
      DeepCopyJSONValue_def)

lemma is_map_JObject: "is_map (JObject m)"
  by (simp add: is_map_def)

lemma is_map_cases: "is_map v \<Longrightarrow> \<exists>m. v = JObject m"
  by (cases v) (simp_all add: is_map_def)

lemma store_dataSource:
  "\<exists>tm'. discard_error (SetNestedField tm (JObject ds) [''spec'', ''dataSource'']) = Done tm' \<and>
     (spec_settable (JObject tm) \<longrightarrow> dataSource_of (JObject tm') = Some (JObject ds)) \<and>
     (\<not> spec_settable (JObject tm) \<longrightarrow> tm' = tm)"
proof (cases "map_of tm ''spec''")
  case None
  then show ?thesis
    by (simp add: discard_error_def SetNestedField_def DeepCopyJSONValue_def
        spec_settable_def dataSource_of_def update_conv')
next
  case (Some v)
  then show ?thesis
    by (cases v)
      (simp_all add: discard_error_def SetNestedField_def DeepCopyJSONValue_def
        spec_settable_def is_map_def dataSource_of_def update_conv')
qed

lemma setBackup_templates_Done:
  "list_all is_map ts \<Longrightarrow>
   \<exists>ts'. setBackup_templates ds ts = Done ts' \<and> list_all is_map ts' \<and>
     list_all2 (\<lambda>t t'. spec_settable t \<longrightarrow> dataSource_of t' = Some (JObject ds)) ts ts'"
proof (induction ts)
  case Nil
  then show ?case by simp
next
  case (Cons t ts)
  from Cons.prems obtain tm where t: "t = JObject tm"
    using is_map_cases by auto
  from Cons obtain ts' where rest: "setBackup_templates ds ts = Done ts'"
      "list_all is_map ts'"
      "list_all2 (\<lambda>t t'. spec_settable t \<longrightarrow> dataSource_of t' = Some (JObject ds)) ts ts'"
    by auto
  from store_dataSource [of tm ds] obtain tm' where
    tm': "discard_error (SetNestedField tm (JObject ds) [''spec'', ''dataSource'']) = Done tm'"
      "spec_settable (JObject tm) \<longrightarrow> dataSource_of (JObject tm') = Some (JObject ds)"
    by blast
  have "setBackup_templates ds (t # ts) = Done (JObject tm' # ts')"
    by (simp add: t tm' rest)
  with rest tm' show ?case
    by (simp add: t is_map_JObject)
qed

lemma setBackup_templates_Panic:
  "\<not> list_all is_map ts \<Longrightarrow> setBackup_templates ds ts = Panic TypeAssertion"
proof (induction ts)
  case Nil
  then show ?case by simp
next
  case (Cons t ts)
  show ?case
  proof (cases t)
    case (JObject tm)
    from store_dataSource [of tm ds] obtain tm' where
      "discard_error (SetNestedField tm (JObject ds) [''spec'', ''dataSource'']) = Done tm'"
      by blast
    with Cons JObject show ?thesis
      by (simp add: is_map_def)
  qed simp_all
qed

lemma has_templates_iff:
  "has_templates c \<longleftrightarrow>
     (\<exists>m ts. c = Some m \<and> map_of m ''volumeClaimTemplates'' = Some (JArray ts) \<and>
        list_all is_map ts)"
  by (auto simp: has_templates_def templates_of_def
      split: option.splits jvalue.splits)

lemma templates_of_update:
  "templates_of (Some (AList.update ''volumeClaimTemplates'' (JArray ts) m)) = Some ts"
  by (simp add: templates_of_def update_conv')

lemma setBackup_components_Done:
  "list_all has_templates cs \<Longrightarrow>
   \<exists>cs'. setBackup_components ds cs = Done cs' \<and> list_all has_templates cs' \<and>
     list_all2 (\<lambda>c c'. \<exists>ts ts'. templates_of c = Some ts \<and> templates_of c' = Some ts' \<and>
        list_all2 (\<lambda>t t'. spec_settable t \<longrightarrow> dataSource_of t' = Some (JObject ds)) ts ts')
       cs cs'"
proof (induction cs)
  case Nil
  then show ?case by simp
next
  case (Cons c cs)
  from Cons.prems obtain m ts where c: "c = Some m"
      "map_of m ''volumeClaimTemplates'' = Some (JArray ts)" "list_all is_map ts"
    by (auto simp: has_templates_iff)
  from setBackup_templates_Done [OF c(3), of ds] obtain ts' where
    ts': "setBackup_templates ds ts = Done ts'" "list_all is_map ts'"
      "list_all2 (\<lambda>t t'. spec_settable t \<longrightarrow> dataSource_of t' = Some (JObject ds)) ts ts'"
    by blast
  from Cons obtain cs' where rest: "setBackup_components ds cs = Done cs'"
      "list_all has_templates cs'"
      "list_all2 (\<lambda>c c'. \<exists>ts ts'. templates_of c = Some ts \<and> templates_of c' = Some ts' \<and>
        list_all2 (\<lambda>t t'. spec_settable t \<longrightarrow> dataSource_of t' = Some (JObject ds)) ts ts')
       cs cs'"
    by auto
  let ?c' = "Some (AList.update ''volumeClaimTemplates'' (JArray ts') m)"
  have run: "setBackup_components ds (c # cs) = Done (?c' # cs')"
    by (simp add: c ts' rest)
  have before: "templates_of c = Some ts"
    by (simp add: templates_of_def c)
  have after: "templates_of ?c' = Some ts'"
    by (rule templates_of_update)
  have shaped: "has_templates ?c'"
    by (simp add: has_templates_def after ts')
  show ?case
    using run before after shaped ts' rest by auto
qed

lemma setBackup_components_Panic:
  "\<not> list_all has_templates cs \<Longrightarrow> setBackup_components ds cs = Panic TypeAssertion"
proof (induction cs)
  case Nil
  then show ?case by simp
next
  case (Cons c cs)
  show ?case
  proof (cases "has_templates c")
    case True
    then obtain m ts where c: "c = Some m"
        "map_of m ''volumeClaimTemplates'' = Some (JArray ts)" "list_all is_map ts"
      by (auto simp: has_templates_iff)
    from setBackup_templates_Done [OF c(3), of ds] obtain ts' where
      "setBackup_templates ds ts = Done ts'"
      by blast
    moreover from True Cons have "setBackup_components ds cs = Panic TypeAssertion"
      by simp
    ultimately show ?thesis
      by (simp add: c)
  next
    case False
    show ?thesis
    proof (cases c)
      case None
      then show ?thesis by simp
    next
      case (Some m)
      note c = this
      show ?thesis
      proof (cases "map_of m ''volumeClaimTemplates''")
        case None
        with c show ?thesis by simp
      next
        case (Some v)
        note v = this
        show ?thesis
        proof (cases v)
          case (JArray ts)
          with False c v have "\<not> list_all is_map ts"
            by (simp add: has_templates_iff)
          then have "setBackup_templates ds ts = Panic TypeAssertion"
            by (rule setBackup_templates_Panic)
          with JArray v c show ?thesis
            by simp
        qed (simp_all add: v c)
      qed
    qed
  qed
qed

lemma NestedString_declared:
  "fst (NestedString job [''spec'', ''backupType'']) =
     (case declared_backupType job of None \<Rightarrow> [] | Some s \<Rightarrow> s)"
  by (simp add: NestedString_def declared_backupType_def
      split: option.splits jvalue.splits prod.splits)

lemma setBackup_looks_up:
  assumes "Backup opts \<noteq> []"
    and "Client opts ResourceBackupJobs (Namespace opts) (Backup opts) = Inr job"
  shows "setBackup opts (Some cs) =
     ([Get ResourceBackupJobs (Namespace opts) (Backup opts)],
      (let backupType = (case declared_backupType job of None \<Rightarrow> [] | Some s \<Rightarrow> s) in
       if backupType \<noteq> ''snapshot''
       then Done (Some (backup_type_error backupType), Some cs)
       else exec_bind (setBackup_components
              [(''name'', JString (Backup opts)), (''kind'', JString ''VolumeSnapshot''),
               (''apiGroup'', JString ''snapshot.storage.k8s.io'')] cs)
              (\<lambda>cs'. Done (None, Some cs'))))"
proof -
  obtain a b c where ns: "NestedString job [''spec'', ''backupType''] = (a, b, c)"
    by (cases "NestedString job [''spec'', ''backupType'']") auto
  with NestedString_declared [of job]
  have a: "a = (case declared_backupType job of None \<Rightarrow> [] | Some s \<Rightarrow> s)"
    by simp
  show ?thesis
    using assms by (simp add: setBackup_def ns make_dataSource_eq Let_def a)
qed

lemma spec_settable_is_map: "spec_settable t \<Longrightarrow> is_map t"
  by (cases t) (simp_all add: spec_settable_def is_map_def)

lemma settable_has_templates: "has_settable_templates c \<Longrightarrow> has_templates c"
  by (auto simp: has_settable_templates_def has_templates_def list_all_iff
      spec_settable_is_map split: option.splits)

lemma list_all2_right: "list_all2 (\<lambda>x y. P y) xs ys \<Longrightarrow> list_all P ys"
  by (induction rule: list_all2_induct) auto

lemma all_settable_written:
  assumes "list_all spec_settable ts"
    and "list_all2 (\<lambda>t t'. spec_settable t \<longrightarrow> P t') ts ts'"
  shows "length ts' = length ts \<and> list_all P ts'"
  using assms by (auto simp: list_all2_conv_all_nth list_all_length)

text \<open>
  C2 (as amended). For a non-empty backup name and a non-nil component list: when the
  read of the backup job succeeds and the job declares a backup type other than
  \<open>snapshot\<close>, \<^verbatim>\<open>setBackup\<close> has sent that one read, returns an error whose message
  carries the declared type between quotes, and leaves the component list as it was.
\<close>

theorem setBackup_rejects_other_types:
  assumes "Backup opts \<noteq> []"
    and "Client opts ResourceBackupJobs (Namespace opts) (Backup opts) = Inr job"
    and "declared_backupType job = Some t"
    and "t \<noteq> ''snapshot''"
  shows "setBackup opts (Some cs) =
     ([Get ResourceBackupJobs (Namespace opts) (Backup opts)],
      Done (Some (Error (''only support snapshot backup, specified backup type is ''
                         @ [CHR 0x27] @ t @ [CHR 0x27])),
            Some cs))"
  using assms by (simp add: setBackup_looks_up backup_type_error_def)

theorem setBackup_rejects_other_types_witness:
  "Backup (scenario_options ''snap1'' (cluster_with (backup_job_of_type ''full''))) \<noteq> [] \<and>
   Client (scenario_options ''snap1'' (cluster_with (backup_job_of_type ''full'')))
     ResourceBackupJobs ''default'' ''snap1'' = Inr (backup_job_of_type ''full'') \<and>
   declared_backupType (backup_job_of_type ''full'') = Some ''full'' \<and>
   ''full'' \<noteq> ''snapshot'' \<and>
   setBackup (scenario_options ''snap1'' (cluster_with (backup_job_of_type ''full'')))
     (Some [Some [(''name'', JString ''wesql''),
                  (''volumeClaimTemplates'', JArray [JObject [(''spec'', JObject [])]])]]) =
     ([Get ResourceBackupJobs ''default'' ''snap1''],
      Done (Some (Error (''only support snapshot backup, specified backup type is ''
                         @ [CHR 0x27] @ ''full'' @ [CHR 0x27])),
            Some [Some [(''name'', JString ''wesql''),
                        (''volumeClaimTemplates'', JArray [JObject [(''spec'', JObject [])]])]]))"
proof -
  let ?opts = "scenario_options ''snap1'' (cluster_with (backup_job_of_type ''full''))"
  have backup: "Backup ?opts = ''snap1''" and ns: "Namespace ?opts = ''default''"
    by (simp_all add: scenario_options_def)
  have nonempty: "Backup ?opts \<noteq> []"
    by (simp add: backup)
  have answer: "Client ?opts ResourceBackupJobs (Namespace ?opts) (Backup ?opts) =
      Inr (backup_job_of_type ''full'')"
    by (simp add: scenario_options_def cluster_with_def)
  have declared: "declared_backupType (backup_job_of_type ''full'') = Some ''full''"
    by (simp add: declared_backupType_def backup_job_of_type_def)
  have other: "''full'' \<noteq> ''snapshot''"
    by simp
  from setBackup_rejects_other_types [OF nonempty answer declared other]
    nonempty answer declared other
  show ?thesis
    by (simp add: backup ns)
qed

text \<open>
  C2 as the claim words it, for every component list, fails on the nil list: the guard
  \<^verbatim>\<open>components == nil\<close> returns \<^verbatim>\<open>nil\<close> before any read, so no error is returned
  although the backup job declares the type \<open>full\<close>.
\<close>

theorem setBackup_nil_list_counterexample:
  "setBackup (scenario_options ''snap1'' (cluster_with (backup_job_of_type ''full''))) None =
     ([], Done (None, None))"
  by (simp add: setBackup_def scenario_options_def)

text \<open>
  C10. For a non-empty backup name and a non-nil component list: when the read of the
  backup job succeeds and the job has no string at \<^verbatim>\<open>spec.backupType\<close> (no \<^verbatim>\<open>spec\<close>
  map, no such key, or a value that is no string), \<^verbatim>\<open>setBackup\<close> takes the type to be
  the empty string, returns the error that names the type \<open>''\<close>, and leaves the
  component list as it was: it does not go on as it does for a snapshot.
\<close>

theorem setBackup_rejects_missing_type:
  assumes "Backup opts \<noteq> []"
    and "Client opts ResourceBackupJobs (Namespace opts) (Backup opts) = Inr job"
    and "declared_backupType job = None"
  shows "fst (NestedString job [''spec'', ''backupType'']) = [] \<and>
     setBackup opts (Some cs) =
     ([Get ResourceBackupJobs (Namespace opts) (Backup opts)],
      Done (Some (Error (''only support snapshot backup, specified backup type is ''
                         @ [CHR 0x27, CHR 0x27])),
            Some cs))"
  using assms by (simp add: setBackup_looks_up backup_type_error_def NestedString_declared)

theorem setBackup_rejects_missing_type_witness:
  "Backup (scenario_options ''snap3'' (cluster_with [(''spec'', JObject [(''ttl'', JString ''7d'')])]))
     \<noteq> [] \<and>
   declared_backupType [(''spec'', JObject [(''ttl'', JString ''7d'')])] = None \<and>
   setBackup (scenario_options ''snap3'' (cluster_with [(''spec'', JObject [(''ttl'', JString ''7d'')])]))
     (Some [Some [(''volumeClaimTemplates'', JArray [JObject []])]]) =
     ([Get ResourceBackupJobs ''default'' ''snap3''],
      Done (Some (Error (''only support snapshot backup, specified backup type is ''
                         @ [CHR 0x27, CHR 0x27])),
            Some [Some [(''volumeClaimTemplates'', JArray [JObject []])]]))"
proof -
  let ?job = "[(''spec'', JObject [(''ttl'', JString ''7d'')])]"
  let ?opts = "scenario_options ''snap3'' (cluster_with ?job)"
  have backup: "Backup ?opts = ''snap3''" and ns: "Namespace ?opts = ''default''"
    by (simp_all add: scenario_options_def)
  have nonempty: "Backup ?opts \<noteq> []"
    by (simp add: backup)
  have answer: "Client ?opts ResourceBackupJobs (Namespace ?opts) (Backup ?opts) = Inr ?job"
    by (simp add: scenario_options_def cluster_with_def)
  have declared: "declared_backupType ?job = None"
    by (simp add: declared_backupType_def)
  from setBackup_rejects_missing_type [OF nonempty answer declared] nonempty declared
  show ?thesis
    by (simp add: backup ns)
qed

text \<open>
  C3 (as amended). For a non-empty backup name whose backup job is read and declares
  the type \<open>snapshot\<close>, and a non-nil component list in which every component carries a
  \<^verbatim>\<open>volumeClaimTemplates\<close> list of maps whose \<^verbatim>\<open>spec\<close> field is a map or is absent:
  \<^verbatim>\<open>setBackup\<close> returns no error, every component keeps the number of its templates,
  and every template of every component holds at \<^verbatim>\<open>spec.dataSource\<close> the descriptor
  with the backup name, the kind \<open>VolumeSnapshot\<close> and the API group
  \<open>snapshot.storage.k8s.io\<close>.
\<close>

theorem setBackup_wires_every_template:
  assumes "Backup opts \<noteq> []"
    and "Client opts ResourceBackupJobs (Namespace opts) (Backup opts) = Inr job"
    and "declared_backupType job = Some ''snapshot''"
    and "list_all has_settable_templates cs"
  shows "\<exists>cs'. setBackup opts (Some cs) =
       ([Get ResourceBackupJobs (Namespace opts) (Backup opts)], Done (None, Some cs')) \<and>
     list_all2 (\<lambda>c c'. \<exists>ts ts'. templates_of c = Some ts \<and> templates_of c' = Some ts' \<and>
        length ts' = length ts \<and>
        list_all (\<lambda>t'. dataSource_of t' = Some (snapshot_descriptor (Backup opts))) ts')
       cs cs'"
proof -
  let ?ds = "[(''name'', JString (Backup opts)), (''kind'', JString ''VolumeSnapshot''),
              (''apiGroup'', JString ''snapshot.storage.k8s.io'')]"
  from assms(4) have shaped: "list_all has_templates cs"
    by (auto simp: list_all_iff settable_has_templates)
  from setBackup_components_Done [OF shaped, of ?ds] obtain cs' where
    run: "setBackup_components ?ds cs = Done cs'"
    and rel: "list_all2 (\<lambda>c c'. \<exists>ts ts'. templates_of c = Some ts \<and> templates_of c' = Some ts' \<and>
        list_all2 (\<lambda>t t'. spec_settable t \<longrightarrow> dataSource_of t' = Some (JObject ?ds)) ts ts')
       cs cs'"
    by blast
  have result: "setBackup opts (Some cs) =
      ([Get ResourceBackupJobs (Namespace opts) (Backup opts)], Done (None, Some cs'))"
    using assms(1-3) by (simp add: setBackup_looks_up run)
  have each: "\<exists>ts ts'. templates_of (cs ! i) = Some ts \<and> templates_of (cs' ! i) = Some ts' \<and>
        length ts' = length ts \<and>
        list_all (\<lambda>t'. dataSource_of t' = Some (snapshot_descriptor (Backup opts))) ts'"
    if i: "i < length cs" for i
  proof -
    from rel i obtain ts ts' where ts: "templates_of (cs ! i) = Some ts"
        "templates_of (cs' ! i) = Some ts'"
        "list_all2 (\<lambda>t t'. spec_settable t \<longrightarrow> dataSource_of t' = Some (JObject ?ds)) ts ts'"
      by (auto simp: list_all2_conv_all_nth)
    from assms(4) i have "has_settable_templates (cs ! i)"
      by (simp add: list_all_length)
    with ts(1) have "list_all spec_settable ts"
      by (simp add: has_settable_templates_def)
    from all_settable_written [OF this ts(3)] ts(1,2) show ?thesis
      by (simp add: snapshot_descriptor_def)
  qed
  from rel have "length cs = length cs'"
    by (rule list_all2_lengthD)
  with each have "list_all2 (\<lambda>c c'. \<exists>ts ts'. templates_of c = Some ts \<and>
        templates_of c' = Some ts' \<and> length ts' = length ts \<and>
        list_all (\<lambda>t'. dataSource_of t' = Some (snapshot_descriptor (Backup opts))) ts')
       cs cs'"
    by (simp add: list_all2_conv_all_nth)
  with result show ?thesis
    by blast
qed

theorem setBackup_wires_every_template_witness:
  "Backup (scenario_options ''snap2'' (cluster_with (backup_job_of_type ''snapshot''))) \<noteq> [] \<and>
   declared_backupType (backup_job_of_type ''snapshot'') = Some ''snapshot'' \<and>
   list_all has_settable_templates
     [Some [(''name'', JString ''c1''), (''type'', JString ''t1''),
            (''volumeClaimTemplates'', JArray [JObject [(''spec'', JObject [])]])]] \<and>
   setBackup (scenario_options ''snap2'' (cluster_with (backup_job_of_type ''snapshot'')))
     (Some [Some [(''name'', JString ''c1''), (''type'', JString ''t1''),
                  (''volumeClaimTemplates'', JArray [JObject [(''spec'', JObject [])]])]]) =
     ([Get ResourceBackupJobs ''default'' ''snap2''],
      Done (None,
        Some [Some [(''name'', JString ''c1''), (''type'', JString ''t1''),
                    (''volumeClaimTemplates'',
                     JArray [JObject [(''spec'',
                       JObject [(''dataSource'', snapshot_descriptor ''snap2'')])]])]])) \<and>
   (\<exists>cs'. setBackup (scenario_options ''snap2'' (cluster_with (backup_job_of_type ''snapshot'')))
       (Some [Some [(''name'', JString ''c1''), (''type'', JString ''t1''),
                    (''volumeClaimTemplates'', JArray [JObject [(''spec'', JObject [])]])]]) =
       ([Get ResourceBackupJobs ''default'' ''snap2''], Done (None, Some cs')) \<and>
      list_all (\<lambda>c'. \<exists>ts'. templates_of c' = Some ts' \<and>
        list_all (\<lambda>t'. dataSource_of t' = Some (snapshot_descriptor ''snap2'')) ts') cs')"
proof -
  let ?job = "backup_job_of_type ''snapshot''"
  let ?opts = "scenario_options ''snap2'' (cluster_with ?job)"
  let ?cs = "[Some [(''name'', JString ''c1''), (''type'', JString ''t1''),
            (''volumeClaimTemplates'', JArray [JObject [(''spec'', JObject [])]])]]"
  have backup: "Backup ?opts = ''snap2''" and ns: "Namespace ?opts = ''default''"
    by (simp_all add: scenario_options_def)
  have nonempty: "Backup ?opts \<noteq> []"
    by (simp add: backup)
  have answer: "Client ?opts ResourceBackupJobs (Namespace ?opts) (Backup ?opts) = Inr ?job"
    by (simp add: scenario_options_def cluster_with_def)
  have declared: "declared_backupType ?job = Some ''snapshot''"
    by (simp add: declared_backupType_def backup_job_of_type_def)
  have shaped: "list_all has_settable_templates ?cs"
    by (simp add: has_settable_templates_def templates_of_def spec_settable_def is_map_def)
  have run: "setBackup ?opts (Some ?cs) =
     ([Get ResourceBackupJobs ''default'' ''snap2''],
      Done (None,
        Some [Some [(''name'', JString ''c1''), (''type'', JString ''t1''),
                    (''volumeClaimTemplates'',
                     JArray [JObject [(''spec'',
                       JObject [(''dataSource'', snapshot_descriptor ''snap2'')])]])]]))"
    by (simp add: setBackup_looks_up [OF nonempty answer] declared backup ns
        discard_error_def SetNestedField_def DeepCopyJSONValue_def snapshot_descriptor_def)
  from setBackup_wires_every_template [OF nonempty answer declared shaped]
  obtain cs' where cs': "setBackup ?opts (Some ?cs) =
       ([Get ResourceBackupJobs (Namespace ?opts) (Backup ?opts)], Done (None, Some cs'))"
    and rel: "list_all2 (\<lambda>c c'. \<exists>ts ts'. templates_of c = Some ts \<and>
        templates_of c' = Some ts' \<and> length ts' = length ts \<and>
        list_all (\<lambda>t'. dataSource_of t' = Some (snapshot_descriptor (Backup ?opts))) ts')
       ?cs cs'"
    by blast
  from rel have "list_all2 (\<lambda>c c'. \<exists>ts'. templates_of c' = Some ts' \<and>
        list_all (\<lambda>t'. dataSource_of t' = Some (snapshot_descriptor ''snap2'')) ts') ?cs cs'"
    by (rule list_all2_mono) (auto simp: backup)
  then have "list_all (\<lambda>c'. \<exists>ts'. templates_of c' = Some ts' \<and>
        list_all (\<lambda>t'. dataSource_of t' = Some (snapshot_descriptor ''snap2'')) ts') cs'"
    by (rule list_all2_right)
  with cs' have "\<exists>cs'. setBackup ?opts (Some ?cs) =
       ([Get ResourceBackupJobs ''default'' ''snap2''], Done (None, Some cs')) \<and>
      list_all (\<lambda>c'. \<exists>ts'. templates_of c' = Some ts' \<and>
        list_all (\<lambda>t'. dataSource_of t' = Some (snapshot_descriptor ''snap2'')) ts') cs'"
    by (auto simp: backup ns)
  with nonempty declared shaped run show ?thesis
    by blast
qed

text \<open>
  C3 as the claim words it fails on a template whose \<^verbatim>\<open>spec\<close> field is there but is
  no map (here \<^verbatim>\<open>null\<close>, as an empty \<^verbatim>\<open>spec:\<close> line of the YAML document gives it).
  The component carries a list of maps, \<^verbatim>\<open>SetNestedField\<close> answers with an error that
  \<^verbatim>\<open>setBackup\<close> drops, and \<^verbatim>\<open>setBackup\<close> returns \<^verbatim>\<open>nil\<close> with the template as it
  was: there is no \<^verbatim>\<open>spec.dataSource\<close> in it.
\<close>

theorem setBackup_spec_not_map_counterexample:
  "has_templates (Some [(''volumeClaimTemplates'', JArray [JObject [(''spec'', JNull)]])]) \<and>
   setBackup (scenario_options ''snap2'' (cluster_with (backup_job_of_type ''snapshot'')))
     (Some [Some [(''volumeClaimTemplates'', JArray [JObject [(''spec'', JNull)]])]]) =
     ([Get ResourceBackupJobs ''default'' ''snap2''],
      Done (None, Some [Some [(''volumeClaimTemplates'', JArray [JObject [(''spec'', JNull)]])]])) \<and>
   dataSource_of (JObject [(''spec'', JNull)]) = None"
  by (simp add: has_templates_def templates_of_def is_map_def setBackup_def
      scenario_options_def cluster_with_def backup_job_of_type_def NestedString_def
      make_dataSource_def discard_error_def SetNestedField_def DeepCopyJSONValue_def
      dataSource_of_def)

lemma setBackup_no_lookup:
  "Backup opts = [] \<Longrightarrow> setBackup opts components = ([], Done (None, components))"
  by (simp add: setBackup_def)

lemma setBackup_lookup_fails:
  "Backup opts \<noteq> [] \<Longrightarrow>
   Client opts ResourceBackupJobs (Namespace opts) (Backup opts) = Inl err \<Longrightarrow>
   setBackup opts (Some cs) =
     ([Get ResourceBackupJobs (Namespace opts) (Backup opts)], Done (Some err, Some cs))"
  by (simp add: setBackup_def)

text \<open>
  C9. The two assertions of \<^verbatim>\<open>setBackup\<close> are unchecked. When every component of
  the list carries a \<^verbatim>\<open>volumeClaimTemplates\<close> field that is a list of maps, the call
  returns whatever the request and the cluster are: it does not panic. When some
  component is a nil map, has no such field, holds something else than a list there or
  a list with an entry that is no map, and the call gets as far as the loop (a non-empty
  backup name, a backup job read and of type \<open>snapshot\<close>), the call panics at the
  assertion: no error is returned.
\<close>

theorem setBackup_assertions:
  "(list_all has_templates cs \<longrightarrow> (\<exists>r. snd (setBackup opts (Some cs)) = Done r)) \<and>
   (\<not> list_all has_templates cs \<longrightarrow> Backup opts \<noteq> [] \<longrightarrow>
      Client opts ResourceBackupJobs (Namespace opts) (Backup opts) = Inr job \<longrightarrow>
      declared_backupType job = Some ''snapshot'' \<longrightarrow>
      snd (setBackup opts (Some cs)) = Panic TypeAssertion)"
proof (intro conjI impI)
  assume shaped: "list_all has_templates cs"
  show "\<exists>r. snd (setBackup opts (Some cs)) = Done r"
  proof (cases "Backup opts = []")
    case True
    then show ?thesis
      by (simp add: setBackup_no_lookup)
  next
    case False
    show ?thesis
    proof (cases "Client opts ResourceBackupJobs (Namespace opts) (Backup opts)")
      case (Inl err)
      with False show ?thesis
        by (simp add: setBackup_lookup_fails)
    next
      case (Inr found)
      from setBackup_components_Done [OF shaped] obtain cs' where
        "setBackup_components
           [(''name'', JString (Backup opts)), (''kind'', JString ''VolumeSnapshot''),
            (''apiGroup'', JString ''snapshot.storage.k8s.io'')] cs = Done cs'"
        by blast
      then show ?thesis
        by (simp add: setBackup_looks_up [OF False Inr] Let_def)
    qed
  qed
next
  assume "\<not> list_all has_templates cs" and "Backup opts \<noteq> []"
    and "Client opts ResourceBackupJobs (Namespace opts) (Backup opts) = Inr job"
    and "declared_backupType job = Some ''snapshot''"
  then show "snd (setBackup opts (Some cs)) = Panic TypeAssertion"
    by (simp add: setBackup_looks_up setBackup_components_Panic)
qed

theorem setBackup_assertions_witness:
  "list_all has_templates
     [Some [(''volumeClaimTemplates'', JArray [JObject [(''spec'', JObject [])]])]] \<and>
   (\<exists>r. snd (setBackup (scenario_options ''snap2'' (cluster_with (backup_job_of_type ''snapshot'')))
       (Some [Some [(''volumeClaimTemplates'', JArray [JObject [(''spec'', JObject [])]])]])) =
       Done r) \<and>
   \<not> list_all has_templates [Some [(''name'', JString ''c1''), (''type'', JString ''t1'')]] \<and>
   Backup (scenario_options ''snap2'' (cluster_with (backup_job_of_type ''snapshot''))) \<noteq> [] \<and>
   declared_backupType (backup_job_of_type ''snapshot'') = Some ''snapshot'' \<and>
   snd (setBackup (scenario_options ''snap2'' (cluster_with (backup_job_of_type ''snapshot'')))
     (Some [Some [(''name'', JString ''c1''), (''type'', JString ''t1'')]])) =
     Panic TypeAssertion"
proof -
  let ?job = "backup_job_of_type ''snapshot''"
  let ?opts = "scenario_options ''snap2'' (cluster_with ?job)"
  let ?good = "[Some [(''volumeClaimTemplates'', JArray [JObject [(''spec'', JObject [])]])]]"
  let ?bad = "[Some [(''name'', JString ''c1''), (''type'', JString ''t1'')]]"
  have nonempty: "Backup ?opts \<noteq> []"
    by (simp add: scenario_options_def)
  have answer: "Client ?opts ResourceBackupJobs (Namespace ?opts) (Backup ?opts) = Inr ?job"
    by (simp add: scenario_options_def cluster_with_def)
  have declared: "declared_backupType ?job = Some ''snapshot''"
    by (simp add: declared_backupType_def backup_job_of_type_def)
  have good: "list_all has_templates ?good"
    by (simp add: has_templates_def templates_of_def is_map_def)
  have bad: "\<not> list_all has_templates ?bad"
    by (simp add: has_templates_def templates_of_def)
  from setBackup_assertions [of ?good ?opts ?job] good
  have returns: "\<exists>r. snd (setBackup ?opts (Some ?good)) = Done r"
    by blast
  from setBackup_assertions [of ?bad ?opts ?job] bad nonempty answer declared
  have panics: "snd (setBackup ?opts (Some ?bad)) = Panic TypeAssertion"
    by blast
  from good returns bad nonempty declared panics show ?thesis
    by blast
qed

section \<open>Properties of Validate\<close>

text \<open>
  C1 (as amended). \<^verbatim>\<open>Validate\<close> checks the termination policy for emptiness only.
  With a cluster name, the empty policy is refused with the error that lists the four
  values. A policy that is not empty is never refused for what it is: \<^verbatim>\<open>Validate\<close>
  then passes exactly when the name and the components locator are not empty. In
  particular each of the four listed values passes.
\<close>

theorem Validate_termination_policy:
  "(TerminationPolicy opts = [] \<longrightarrow> Name opts \<noteq> [] \<longrightarrow>
      Validate opts = Some termination_policy_error) \<and>
   (TerminationPolicy opts \<noteq> [] \<longrightarrow>
      Validate opts \<noteq> Some termination_policy_error \<and>
      (Validate opts = None \<longleftrightarrow> Name opts \<noteq> [] \<and> ComponentsFilePath opts \<noteq> [])) \<and>
   (\<forall>p \<in> set termination_policies. Name opts \<noteq> [] \<longrightarrow> ComponentsFilePath opts \<noteq> [] \<longrightarrow>
      Validate (opts\<lparr>TerminationPolicy := p\<rparr>) = None)"
proof (intro conjI impI ballI)
  assume "TerminationPolicy opts = []" and "Name opts \<noteq> []"
  then show "Validate opts = Some termination_policy_error"
    by (simp add: Validate_def)
next
  assume "TerminationPolicy opts \<noteq> []"
  then show "Validate opts \<noteq> Some termination_policy_error"
    by (simp add: Validate_def missing_name_error_def termination_policy_error_def
        components_path_error_def)
next
  assume "TerminationPolicy opts \<noteq> []"
  then show "Validate opts = None \<longleftrightarrow> Name opts \<noteq> [] \<and> ComponentsFilePath opts \<noteq> []"
    by (simp add: Validate_def)
next
  fix p
  assume "p \<in> set termination_policies" and "Name opts \<noteq> []"
    and "ComponentsFilePath opts \<noteq> []"
  then show "Validate (opts\<lparr>TerminationPolicy := p\<rparr>) = None"
    by (auto simp: Validate_def termination_policies_def)
qed

theorem Validate_termination_policy_witness:
  "TerminationPolicy ((scenario_options [] (cluster_with []))\<lparr>TerminationPolicy := []\<rparr>) = [] \<and>
   Name ((scenario_options [] (cluster_with []))\<lparr>TerminationPolicy := []\<rparr>) \<noteq> [] \<and>
   Validate ((scenario_options [] (cluster_with []))\<lparr>TerminationPolicy := []\<rparr>) =
     Some termination_policy_error \<and>
   TerminationPolicy (scenario_options [] (cluster_with [])) \<noteq> [] \<and>
   ComponentsFilePath (scenario_options [] (cluster_with [])) \<noteq> [] \<and>
   Validate (scenario_options [] (cluster_with [])) = None \<and>
   ''WipeOut'' \<in> set termination_policies \<and>
   Validate ((scenario_options [] (cluster_with []))\<lparr>TerminationPolicy := ''WipeOut''\<rparr>) = None"
proof -
  let ?opts = "scenario_options [] (cluster_with [])"
  let ?unset = "?opts\<lparr>TerminationPolicy := []\<rparr>"
  have unset: "TerminationPolicy ?unset = []" and named: "Name ?unset \<noteq> []"
    by (simp_all add: scenario_options_def)
  have set: "TerminationPolicy ?opts \<noteq> []" and name: "Name ?opts \<noteq> []"
    and path: "ComponentsFilePath ?opts \<noteq> []"
    by (simp_all add: scenario_options_def)
  have listed: "''WipeOut'' \<in> set termination_policies"
    by (simp add: termination_policies_def)
  from Validate_termination_policy [of ?unset] unset named
  have refused: "Validate ?unset = Some termination_policy_error"
    by blast
  from Validate_termination_policy [of ?opts] set name path
  have passes: "Validate ?opts = None"
    by blast
  from Validate_termination_policy [of ?opts] listed name path
  have wipeout: "Validate (?opts\<lparr>TerminationPolicy := ''WipeOut''\<rparr>) = None"
    by blast
  from unset named refused set path passes listed wipeout show ?thesis
    by blast
qed

text \<open>
  C1 as the claim words it fails on a policy outside the four values: \<^verbatim>\<open>Validate\<close>
  returns no error for it.
\<close>

theorem Validate_unlisted_policy_counterexample:
  "''DoNotDelete'' \<notin> set termination_policies \<and>
   Validate ((scenario_options [] (cluster_with []))\<lparr>TerminationPolicy := ''DoNotDelete''\<rparr>) =
     None"
  by (simp add: termination_policies_def Validate_def scenario_options_def)

section \<open>Properties of PreCreate and setEnableAllLogs\<close>

text \<open>
  C5. When \<^verbatim>\<open>EnableAllLogs\<close> is false, \<^verbatim>\<open>PreCreate\<close> returns no error, sends no read
  to the cluster and leaves the document as it was, whatever the document, the
  cluster and the conversions are.
\<close>

theorem PreCreate_disabled_is_noop:
  "\<not> EnableAllLogs opts \<Longrightarrow> PreCreate hasUnicode conv opts obj = ([], None, obj)"
  by (simp add: PreCreate_def)

theorem PreCreate_disabled_is_noop_witness:
  "\<not> EnableAllLogs (scenario_options [] (cluster_with [])) \<and>
   PreCreate same_bytes refusing_converter (scenario_options [] (cluster_with []))
     [(''spec'', JObject [(''components'',
        JArray [JObject [(''type'', JString ''t1''),
                         (''enabledLogs'', JArray [JString ''error''])]])])] =
     ([], None,
      [(''spec'', JObject [(''components'',
         JArray [JObject [(''type'', JString ''t1''),
                          (''enabledLogs'', JArray [JString ''error''])]])])])"
proof -
  have off: "\<not> EnableAllLogs (scenario_options [] (cluster_with []))"
    by (simp add: scenario_options_def)
  from PreCreate_disabled_is_noop [OF off] off show ?thesis
    by simp
qed

lemma typeList_loop_eq: "typeList_loop acc confs = acc @ map LogConfig_Name confs"
  by (induction confs arbitrary: acc) simp_all

lemma setEnableAllLogs_inner_eq:
  "setEnableAllLogs_inner hasUnicode comCluster current coms =
     (let ms = filter (\<lambda>com. EqualFold hasUnicode (Type comCluster) (TypeName com)) coms in
      if ms = [] then current
      else current\<lparr>EnabledLogs := map LogConfig_Name (LogConfigs (last ms))\<rparr>)"
  by (induction coms arbitrary: current) (simp_all add: Let_def typeList_loop_eq)

text \<open>
  On two ASCII strings the comparison never reaches the Unicode part: its result is the
  same whatever that part would answer.
\<close>

lemma EqualFold_ascii:
  "is_ascii s \<Longrightarrow> is_ascii t \<Longrightarrow> EqualFold u s t = EqualFold u' s t"
proof (induction s arbitrary: t)
  case Nil
  then show ?case by (cases t) simp_all
next
  case (Cons sr s)
  show ?case
  proof (cases t)
    case Nil
    then show ?thesis by simp
  next
    case (Cons tr t')
    with Cons.prems have heads: "(of_char sr :: nat) < 128" "(of_char tr :: nat) < 128"
      and rests: "is_ascii s" "is_ascii t'"
      by (simp_all add: is_ascii_def)
    from Cons.IH [OF rests] have "EqualFold u s t' = EqualFold u' s t'" .
    with heads Cons show ?thesis
      by (simp add: Let_def)
  qed
qed

lemma setEnableAllLogs_ascii:
  assumes "list_all (\<lambda>x. is_ascii (Type x)) (ClusterSpec_Components (Cluster_Spec c))"
    and "list_all (\<lambda>y. is_ascii (TypeName y))
           (ClusterDefinitionSpec_Components (ClusterDefinition_Spec cd))"
  shows "setEnableAllLogs u c cd = setEnableAllLogs u' c cd"
proof -
  let ?coms = "ClusterDefinitionSpec_Components (ClusterDefinition_Spec cd)"
  have same: "filter (\<lambda>com. EqualFold u (Type x) (TypeName com)) ?coms =
      filter (\<lambda>com. EqualFold u' (Type x) (TypeName com)) ?coms"
    if "x \<in> set (ClusterSpec_Components (Cluster_Spec c))" for x
  proof (rule filter_cong [OF refl])
    fix com
    assume "com \<in> set ?coms"
    with assms(2) have "is_ascii (TypeName com)"
      by (simp add: list_all_iff)
    moreover from assms(1) that have "is_ascii (Type x)"
      by (simp add: list_all_iff)
    ultimately show "EqualFold u (Type x) (TypeName com) = EqualFold u' (Type x) (TypeName com)"
      by (rule EqualFold_ascii [rotated])
  qed
  have "map (\<lambda>x. setEnableAllLogs_inner u x x ?coms) (ClusterSpec_Components (Cluster_Spec c)) =
      map (\<lambda>x. setEnableAllLogs_inner u' x x ?coms) (ClusterSpec_Components (Cluster_Spec c))"
    by (rule map_cong [OF refl]) (simp add: setEnableAllLogs_inner_eq same)
  then show ?thesis
    by (simp add: setEnableAllLogs_def)
qed

text \<open>
  C4 (as amended). \<^verbatim>\<open>setEnableAllLogs\<close> keeps the components of the cluster in number
  and order, and changes nothing of a component but \<^verbatim>\<open>EnabledLogs\<close>. A component whose
  type equals the type name of no entry of the definition under \<^verbatim>\<open>strings.EqualFold\<close>
  keeps its \<^verbatim>\<open>EnabledLogs\<close>. A component whose type matches at least one entry gets as
  \<^verbatim>\<open>EnabledLogs\<close> the names of the log configurations of the last matching entry of
  the definition, in the order that entry declares them. This holds whatever the
  Unicode part of the comparison answers on names that are not ASCII.
\<close>

theorem setEnableAllLogs_rewrites:
  "length (ClusterSpec_Components (Cluster_Spec (setEnableAllLogs hasUnicode c cd))) =
     length (ClusterSpec_Components (Cluster_Spec c)) \<and>
   ClusterSpec_ClusterDefRef (Cluster_Spec (setEnableAllLogs hasUnicode c cd)) =
     ClusterSpec_ClusterDefRef (Cluster_Spec c) \<and>
   (\<forall>i < length (ClusterSpec_Components (Cluster_Spec c)).
      (let before = ClusterSpec_Components (Cluster_Spec c) ! i;
           after = ClusterSpec_Components (Cluster_Spec (setEnableAllLogs hasUnicode c cd)) ! i
       in Type after = Type before \<and>
          ClusterComponent_Name after = ClusterComponent_Name before \<and>
          (matching_entries hasUnicode before cd = [] \<longrightarrow>
             EnabledLogs after = EnabledLogs before) \<and>
          (matching_entries hasUnicode before cd \<noteq> [] \<longrightarrow>
             EnabledLogs after =
               map LogConfig_Name
                 (LogConfigs (last (matching_entries hasUnicode before cd))))))"
  by (simp add: setEnableAllLogs_def setEnableAllLogs_inner_eq matching_entries_def Let_def)

theorem setEnableAllLogs_rewrites_witness:
  "setEnableAllLogs same_bytes
     \<lparr>Cluster_Spec = \<lparr>ClusterSpec_ClusterDefRef = ''apecloud-wesql'',
        ClusterSpec_Components =
          [\<lparr>ClusterComponent_Name = ''c1'', Type = ''T1'', EnabledLogs = [''general'']\<rparr>,
           \<lparr>ClusterComponent_Name = ''c2'', Type = ''proxy'', EnabledLogs = [''audit'']\<rparr>]\<rparr>\<rparr>
     \<lparr>ClusterDefinition_Spec = \<lparr>ClusterDefinitionSpec_Components =
        [\<lparr>TypeName = ''t1'',
          LogConfigs = [\<lparr>LogConfig_Name = ''error''\<rparr>, \<lparr>LogConfig_Name = ''slow''\<rparr>]\<rparr>]\<rparr>\<rparr> =
     \<lparr>Cluster_Spec = \<lparr>ClusterSpec_ClusterDefRef = ''apecloud-wesql'',
        ClusterSpec_Components =
          [\<lparr>ClusterComponent_Name = ''c1'', Type = ''T1'', EnabledLogs = [''error'', ''slow'']\<rparr>,
           \<lparr>ClusterComponent_Name = ''c2'', Type = ''proxy'', EnabledLogs = [''audit'']\<rparr>]\<rparr>\<rparr> \<and>
   (let c = \<lparr>Cluster_Spec = \<lparr>ClusterSpec_ClusterDefRef = ''apecloud-wesql'',
        ClusterSpec_Components =
          [\<lparr>ClusterComponent_Name = ''c1'', Type = ''T1'', EnabledLogs = [''general'']\<rparr>,
           \<lparr>ClusterComponent_Name = ''c2'', Type = ''proxy'', EnabledLogs = [''audit'']\<rparr>]\<rparr>\<rparr>;
        cd = \<lparr>ClusterDefinition_Spec = \<lparr>ClusterDefinitionSpec_Components =
        [\<lparr>TypeName = ''t1'',
          LogConfigs = [\<lparr>LogConfig_Name = ''error''\<rparr>, \<lparr>LogConfig_Name = ''slow''\<rparr>]\<rparr>]\<rparr>\<rparr>
    in matching_entries same_bytes (ClusterSpec_Components (Cluster_Spec c) ! 0) cd \<noteq> [] \<and>
       matching_entries same_bytes (ClusterSpec_Components (Cluster_Spec c) ! 1) cd = [] \<and>
       EnabledLogs (ClusterSpec_Components (Cluster_Spec (setEnableAllLogs same_bytes c cd)) ! 0) =
         [''error'', ''slow''] \<and>
       EnabledLogs (ClusterSpec_Components (Cluster_Spec (setEnableAllLogs same_bytes c cd)) ! 1) =
         [''audit''])"
proof -
  let ?c = "\<lparr>Cluster_Spec = \<lparr>ClusterSpec_ClusterDefRef = ''apecloud-wesql'',
        ClusterSpec_Components =
          [\<lparr>ClusterComponent_Name = ''c1'', Type = ''T1'', EnabledLogs = [''general'']\<rparr>,
           \<lparr>ClusterComponent_Name = ''c2'', Type = ''proxy'', EnabledLogs = [''audit'']\<rparr>]\<rparr>\<rparr>"
  let ?cd = "\<lparr>ClusterDefinition_Spec = \<lparr>ClusterDefinitionSpec_Components =
        [\<lparr>TypeName = ''t1'',
          LogConfigs = [\<lparr>LogConfig_Name = ''error''\<rparr>, \<lparr>LogConfig_Name = ''slow''\<rparr>]\<rparr>]\<rparr>\<rparr>"
  let ?after = "setEnableAllLogs same_bytes ?c ?cd"
  have run: "?after =
     \<lparr>Cluster_Spec = \<lparr>ClusterSpec_ClusterDefRef = ''apecloud-wesql'',
        ClusterSpec_Components =
          [\<lparr>ClusterComponent_Name = ''c1'', Type = ''T1'', EnabledLogs = [''error'', ''slow'']\<rparr>,
           \<lparr>ClusterComponent_Name = ''c2'', Type = ''proxy'', EnabledLogs = [''audit'']\<rparr>]\<rparr>\<rparr>"
    by (simp add: setEnableAllLogs_def)
  have match0:
    "matching_entries same_bytes (ClusterSpec_Components (Cluster_Spec ?c) ! 0) ?cd \<noteq> []"
    by (simp add: matching_entries_def)
  have match1:
    "matching_entries same_bytes (ClusterSpec_Components (Cluster_Spec ?c) ! 1) ?cd = []"
    by (simp add: matching_entries_def)
  have last0: "map LogConfig_Name (LogConfigs
      (last (matching_entries same_bytes (ClusterSpec_Components (Cluster_Spec ?c) ! 0) ?cd))) =
      [''error'', ''slow'']"
    by (simp add: matching_entries_def)
  have len0: "0 < length (ClusterSpec_Components (Cluster_Spec ?c))"
    and len1: "1 < length (ClusterSpec_Components (Cluster_Spec ?c))"
    by simp_all
  note inst = setEnableAllLogs_rewrites [of same_bytes ?c ?cd, unfolded Let_def]
  from inst len0 match0
  have "EnabledLogs (ClusterSpec_Components (Cluster_Spec ?after) ! 0) =
      map LogConfig_Name (LogConfigs
        (last (matching_entries same_bytes (ClusterSpec_Components (Cluster_Spec ?c) ! 0) ?cd)))"
    by blast
  with last0
  have logs0: "EnabledLogs (ClusterSpec_Components (Cluster_Spec ?after) ! 0) =
      [''error'', ''slow'']"
    by simp
  from inst len1 match1
  have "EnabledLogs (ClusterSpec_Components (Cluster_Spec ?after) ! 1) =
      EnabledLogs (ClusterSpec_Components (Cluster_Spec ?c) ! 1)"
    by blast
  then
  have logs1: "EnabledLogs (ClusterSpec_Components (Cluster_Spec ?after) ! 1) = [''audit'']"
    by simp
  from run match0 match1 logs0 logs1 show ?thesis
    unfolding Let_def by blast
qed

text \<open>
  C4 as the claim words it, the names of the matching entry for each component that
  matches one, fails when two entries of the definition match: the loop over the
  entries has no \<^verbatim>\<open>break\<close>, so the later entry overwrites what the earlier one set.
  Here the component of type \<open>t1\<close> matches the entry \<open>t1\<close>, which declares \<open>error\<close> and
  \<open>slow\<close>, and the entry \<open>T1\<close>, which declares nothing, and it ends with no enabled
  log.
\<close>

theorem setEnableAllLogs_first_match_counterexample:
  "matching_entries same_bytes
     \<lparr>ClusterComponent_Name = ''c1'', Type = ''t1'', EnabledLogs = [''general'']\<rparr>
     \<lparr>ClusterDefinition_Spec = \<lparr>ClusterDefinitionSpec_Components =
        [\<lparr>TypeName = ''t1'',
          LogConfigs = [\<lparr>LogConfig_Name = ''error''\<rparr>, \<lparr>LogConfig_Name = ''slow''\<rparr>]\<rparr>,
         \<lparr>TypeName = ''T1'', LogConfigs = []\<rparr>]\<rparr>\<rparr> =
     [\<lparr>TypeName = ''t1'',
       LogConfigs = [\<lparr>LogConfig_Name = ''error''\<rparr>, \<lparr>LogConfig_Name = ''slow''\<rparr>]\<rparr>,
      \<lparr>TypeName = ''T1'', LogConfigs = []\<rparr>] \<and>
   setEnableAllLogs same_bytes
     \<lparr>Cluster_Spec = \<lparr>ClusterSpec_ClusterDefRef = ''apecloud-wesql'',
        ClusterSpec_Components =
          [\<lparr>ClusterComponent_Name = ''c1'', Type = ''t1'', EnabledLogs = [''general'']\<rparr>]\<rparr>\<rparr>
     \<lparr>ClusterDefinition_Spec = \<lparr>ClusterDefinitionSpec_Components =
        [\<lparr>TypeName = ''t1'',
          LogConfigs = [\<lparr>LogConfig_Name = ''error''\<rparr>, \<lparr>LogConfig_Name = ''slow''\<rparr>]\<rparr>,
         \<lparr>TypeName = ''T1'', LogConfigs = []\<rparr>]\<rparr>\<rparr> =
     \<lparr>Cluster_Spec = \<lparr>ClusterSpec_ClusterDefRef = ''apecloud-wesql'',
        ClusterSpec_Components =
          [\<lparr>ClusterComponent_Name = ''c1'', Type = ''t1'', EnabledLogs = []\<rparr>]\<rparr>\<rparr>"
  by (simp add: matching_entries_def setEnableAllLogs_def)

section \<open>Properties of multipleSourceComponents\<close>

lemma Index_zero_iff: "Index s substr = 0 \<longleftrightarrow> prefix substr s"
  by (cases s) (auto simp: Let_def)

text \<open>
  C8 (as amended). \<^verbatim>\<open>multipleSourceComponents\<close> chooses by the locator. The string
  \<open>-\<close> reads the input stream it was given, to its end. Any other string that starts
  with \<open>http://\<close> or \<open>https://\<close> issues one GET for it, reads the body to its end and
  closes it. Every other string is opened as a file, read to its end and closed. When
  the GET or the open fails, the error is returned with a nil byte slice and nothing
  is read. When the read ends at end of stream, the bytes are returned with no error.
  When the read fails, the error is returned together with the bytes read before it.
\<close>

theorem multipleSourceComponents_dispatch:
  "(fileName = ''-'' \<longrightarrow>
      multipleSourceComponents w fileName streams =
        ([ReadIn], Some (delivered (In streams)), failure (In streams))) \<and>
   (fileName \<noteq> ''-'' \<and> (prefix ''http://'' fileName \<or> prefix ''https://'' fileName) \<longrightarrow>
      (\<forall>err. http_Get w fileName = Inl err \<longrightarrow>
         multipleSourceComponents w fileName streams = ([HttpGet fileName], None, Some err)) \<and>
      (\<forall>body. http_Get w fileName = Inr body \<longrightarrow>
         multipleSourceComponents w fileName streams =
           ([HttpGet fileName, ReadBody fileName, CloseBody fileName],
            Some (delivered body), failure body))) \<and>
   (fileName \<noteq> ''-'' \<and> \<not> prefix ''http://'' fileName \<and> \<not> prefix ''https://'' fileName \<longrightarrow>
      (\<forall>err. os_Open w fileName = Inl err \<longrightarrow>
         multipleSourceComponents w fileName streams = ([OsOpen fileName], None, Some err)) \<and>
      (\<forall>f. os_Open w fileName = Inr f \<longrightarrow>
         multipleSourceComponents w fileName streams =
           ([OsOpen fileName, ReadFile fileName, CloseFile fileName],
            Some (delivered f), failure f)))"
  by (simp add: multipleSourceComponents_def Index_zero_iff ReadAll_def)

theorem multipleSourceComponents_dispatch_witness:
  "multipleSourceComponents unreachable_world ''-''
     \<lparr>In = \<lparr>delivered = ''- name: wesql'', failure = None\<rparr>\<rparr> =
     ([ReadIn], Some ''- name: wesql'', None) \<and>
   ''https://kubeblocks.io/yamls/wesql_single.yaml'' \<noteq> ''-'' \<and>
   prefix ''https://'' ''https://kubeblocks.io/yamls/wesql_single.yaml'' \<and>
   multipleSourceComponents
     (unreachable_world\<lparr>http_Get := (\<lambda>url. Inr \<lparr>delivered = ''- name: wesql'', failure = None\<rparr>)\<rparr>)
     ''https://kubeblocks.io/yamls/wesql_single.yaml''
     \<lparr>In = \<lparr>delivered = [], failure = None\<rparr>\<rparr> =
     ([HttpGet ''https://kubeblocks.io/yamls/wesql_single.yaml'',
       ReadBody ''https://kubeblocks.io/yamls/wesql_single.yaml'',
       CloseBody ''https://kubeblocks.io/yamls/wesql_single.yaml''],
      Some ''- name: wesql'', None) \<and>
   multipleSourceComponents unreachable_world ''http://kubeblocks.io/c.yaml''
     \<lparr>In = \<lparr>delivered = [], failure = None\<rparr>\<rparr> =
     ([HttpGet ''http://kubeblocks.io/c.yaml''], None, Some (Error ''connection refused'')) \<and>
   ''component.yaml'' \<noteq> ''-'' \<and> \<not> prefix ''http://'' ''component.yaml'' \<and>
   \<not> prefix ''https://'' ''component.yaml'' \<and>
   multipleSourceComponents unreachable_world ''component.yaml''
     \<lparr>In = \<lparr>delivered = [], failure = None\<rparr>\<rparr> =
     ([OsOpen ''component.yaml''], None, Some (Error ''no such file or directory'')) \<and>
   multipleSourceComponents
     (unreachable_world\<lparr>os_Open := (\<lambda>path. Inr \<lparr>delivered = ''- name: c1'', failure = None\<rparr>)\<rparr>)
     ''component.yaml'' \<lparr>In = \<lparr>delivered = [], failure = None\<rparr>\<rparr> =
     ([OsOpen ''component.yaml'', ReadFile ''component.yaml'', CloseFile ''component.yaml''],
      Some ''- name: c1'', None)"
proof -
  let ?none = "\<lparr>In = \<lparr>delivered = [], failure = None\<rparr>\<rparr>"
  let ?url = "''https://kubeblocks.io/yamls/wesql_single.yaml''"
  let ?body = "\<lparr>delivered = ''- name: wesql'', failure = None\<rparr>"
  let ?file = "\<lparr>delivered = ''- name: c1'', failure = None\<rparr>"
  let ?web = "unreachable_world\<lparr>http_Get := (\<lambda>url. Inr ?body)\<rparr>"
  let ?disk = "unreachable_world\<lparr>os_Open := (\<lambda>path. Inr ?file)\<rparr>"
  have url: "?url \<noteq> ''-''" "prefix ''https://'' ?url"
    by simp_all
  have plain: "''http://kubeblocks.io/c.yaml'' \<noteq> ''-''"
    "prefix ''http://'' ''http://kubeblocks.io/c.yaml''"
    by simp_all
  have path: "''component.yaml'' \<noteq> ''-''" "\<not> prefix ''http://'' ''component.yaml''"
    "\<not> prefix ''https://'' ''component.yaml''"
    by simp_all
  have answers: "http_Get ?web ?url = Inr ?body"
    "http_Get unreachable_world ''http://kubeblocks.io/c.yaml'' = Inl (Error ''connection refused'')"
    "os_Open unreachable_world ''component.yaml'' = Inl (Error ''no such file or directory'')"
    "os_Open ?disk ''component.yaml'' = Inr ?file"
    by (simp_all add: unreachable_world_def)
  from multipleSourceComponents_dispatch [of "''-''" unreachable_world
      "\<lparr>In = \<lparr>delivered = ''- name: wesql'', failure = None\<rparr>\<rparr>"]
  have stdin: "multipleSourceComponents unreachable_world ''-''
     \<lparr>In = \<lparr>delivered = ''- name: wesql'', failure = None\<rparr>\<rparr> =
     ([ReadIn], Some ''- name: wesql'', None)"
    by simp
  from multipleSourceComponents_dispatch [of ?url ?web ?none] url answers(1)
  have remote: "multipleSourceComponents ?web ?url ?none =
     ([HttpGet ?url, ReadBody ?url, CloseBody ?url], Some ''- name: wesql'', None)"
    by simp
  from multipleSourceComponents_dispatch [of "''http://kubeblocks.io/c.yaml''"
      unreachable_world ?none] plain answers(2)
  have refused: "multipleSourceComponents unreachable_world ''http://kubeblocks.io/c.yaml'' ?none =
     ([HttpGet ''http://kubeblocks.io/c.yaml''], None, Some (Error ''connection refused''))"
    by simp
  from multipleSourceComponents_dispatch [of "''component.yaml''" unreachable_world ?none]
    path answers(3)
  have missing: "multipleSourceComponents unreachable_world ''component.yaml'' ?none =
     ([OsOpen ''component.yaml''], None, Some (Error ''no such file or directory''))"
    by simp
  from multipleSourceComponents_dispatch [of "''component.yaml''" ?disk ?none] path answers(4)
  have local: "multipleSourceComponents ?disk ''component.yaml'' ?none =
     ([OsOpen ''component.yaml'', ReadFile ''component.yaml'', CloseFile ''component.yaml''],
      Some ''- name: c1'', None)"
    by simp
  from stdin url remote refused path missing local show ?thesis
    by blast
qed

text \<open>
  C8 as the claim words it, no byte output on any read failure, fails when the read
  breaks off after some bytes: \<^verbatim>\<open>io.ReadAll\<close> hands back what it has read with the
  error, and \<^verbatim>\<open>multipleSourceComponents\<close> returns both as they come.
\<close>

theorem multipleSourceComponents_read_failure_counterexample:
  "multipleSourceComponents unreachable_world ''-''
     \<lparr>In = \<lparr>delivered = ''- name: we'', failure = Some (Error ''unexpected EOF'')\<rparr>\<rparr> =
     ([ReadIn], Some ''- name: we'', Some (Error ''unexpected EOF''))"
  by (simp add: multipleSourceComponents_def ReadAll_def)

end
